theory Spec2Isabelle
  imports Complex_Main
begin

section \<open>Order backend of mi-tienda-uy: data model\<close>

text \<open>
  The theory embeds the order routes of \<^verbatim>\<open>src/index.ts\<close>: the handlers registered on
  \<^verbatim>\<open>apiRouter\<close> for \<^verbatim>\<open>/orders\<close> and the function \<^verbatim>\<open>generateOrderCode\<close>.
  Each handler becomes a function from the database before the request to either an
  error (the 4xx/5xx answer; the database is then as it was) or the database after it.

  Conventions of the embedding:
  \<^item> a JavaScript number that holds money (\<^verbatim>\<open>price\<close>, \<^verbatim>\<open>subtotal\<close>) or a draw of
    \<^verbatim>\<open>Math.random()\<close> is an exact rational; rounding of doubles is not modelled;
  \<^item> \<^verbatim>\<open>quantity\<close> is an \<open>int\<close>: both schemas accept integers only;
  \<^item> a Firestore timestamp is a natural number; where a handler writes
    \<^verbatim>\<open>FieldValue.serverTimestamp()\<close> to a field of the document, Firestore stores the
    time of the write, the argument \<open>now\<close> of the handler;
  \<^item> the Firestore SDK checks the data of a write before it sends anything, and throws
    on \<^verbatim>\<open>undefined\<close> inside an array and on a \<^verbatim>\<open>FieldValue\<close> sentinel inside an array
    element; the handler then ends in its \<^verbatim>\<open>catch\<close> block with nothing written;
  \<^item> a collection is an association list from document id to document, in the order
    in which a query returns the documents;
  \<^item> the fields \<^verbatim>\<open>items\<close> and \<^verbatim>\<open>wishlistItems\<close> are always present, as
    \<^verbatim>\<open>POST /orders\<close> writes them, so the guards \<^verbatim>\<open>!orderData?.items\<close> and
    \<^verbatim>\<open>orderData.wishlistItems || []\<close> of the source never fire.
\<close>

type_synonym timestamp = nat

text \<open>The value of a timestamp field inside an item: a time, or the sentinel
  \<^verbatim>\<open>FieldValue.serverTimestamp()\<close> as the handler builds it.\<close>

datatype time_value = ServerTimestamp | Time timestamp

record product =
  product_sku :: string
  product_name :: string
  product_price :: rat

record order_item =
  productId :: string
  sku :: string
  name :: string
  price :: rat
  quantity :: int
  color :: "string option"
  addedAt :: time_value

record order =
  clientId :: string
  status :: string
  items :: "order_item list"
  wishlistItems :: "order_item list"
  createdAt :: timestamp
  updatedAt :: timestamp
  orderCode :: "string option"
  closedAt :: "timestamp option"

record db =
  orders :: "(string \<times> order) list"
  products :: "(string \<times> product) list"

datatype error =
    Unauthorized        \<comment> \<open>401\<close>
  | Forbidden           \<comment> \<open>403\<close>
  | ValidationError     \<comment> \<open>400 \<^verbatim>\<open>Validation error\<close>, from \<^verbatim>\<open>validateRequest\<close>\<close>
  | InvalidItemIndex    \<comment> \<open>400 \<^verbatim>\<open>Invalid item index\<close>\<close>
  | InvalidStatus       \<comment> \<open>400 \<^verbatim>\<open>Invalid status\<close>\<close>
  | ProductNotFound     \<comment> \<open>404 \<^verbatim>\<open>Product not found\<close>\<close>
  | OrderNotFound       \<comment> \<open>404 \<^verbatim>\<open>Order not found\<close>\<close>
  | InternalError       \<comment> \<open>500, the \<^verbatim>\<open>catch\<close> block of a handler\<close>

subsection \<open>The document store\<close>

text \<open>\<^verbatim>\<open>doc(id).get()\<close> is \<open>map_of\<close>; \<^verbatim>\<open>doc(id).update(fields)\<close> rewrites the document
  stored under the id.\<close>

fun doc_update :: "string \<Rightarrow> ('v \<Rightarrow> 'v) \<Rightarrow> (string \<times> 'v) list \<Rightarrow> (string \<times> 'v) list" where
  "doc_update k f [] = []"
| "doc_update k f ((k', v) # ds) =
     (if k' = k then (k', f v) # ds else (k', v) # doc_update k f ds)"

text \<open>\<^verbatim>\<open>FieldValue.arrayUnion(e1, ..., en)\<close> on a stored array: each element that the array
  does not hold yet is appended.\<close>

definition arrayUnion :: "'a list \<Rightarrow> 'a list \<Rightarrow> 'a list" where
  "arrayUnion stored elements =
     foldl (\<lambda>acc e. if e \<in> set acc then acc else acc @ [e]) stored elements"

text \<open>The check of the SDK on an element handed to \<^verbatim>\<open>arrayUnion\<close>
  (\<^verbatim>\<open>validateArrayElement\<close>): a sentinel inside the element is refused
  (\<^verbatim>\<open>FieldValue.serverTimestamp() cannot be used inside of an array\<close>).\<close>

definition validateArrayElement :: "order_item \<Rightarrow> bool" where
  "validateArrayElement e \<longleftrightarrow> addedAt e \<noteq> ServerTimestamp"

subsection \<open>JavaScript numbers, \<^verbatim>\<open>parseInt\<close> and array operations\<close>

text \<open>The result of \<^verbatim>\<open>parseInt\<close> is \<^verbatim>\<open>NaN\<close> or an integer. Every comparison with
  \<^verbatim>\<open>NaN\<close> is false.\<close>

datatype js_number = NaN | Num int

fun js_lt :: "js_number \<Rightarrow> js_number \<Rightarrow> bool" where
  "js_lt (Num a) (Num b) = (a < b)"
| "js_lt _ _ = False"

fun js_ge :: "js_number \<Rightarrow> js_number \<Rightarrow> bool" where
  "js_ge (Num a) (Num b) = (a \<ge> b)"
| "js_ge _ _ = False"

definition isWhiteSpace :: "char \<Rightarrow> bool" where
  "isWhiteSpace c \<longleftrightarrow> of_char c \<in> {9, 10, 11, 12, 13, 32 :: nat}"

definition digitValue :: "char \<Rightarrow> nat option" where
  "digitValue c =
     (let n = of_char c :: nat in
      if 48 \<le> n \<and> n \<le> 57 then Some (n - 48)
      else if 97 \<le> n \<and> n \<le> 122 then Some (n - 87)
      else if 65 \<le> n \<and> n \<le> 90 then Some (n - 55)
      else None)"

definition isRadixDigit :: "nat \<Rightarrow> char \<Rightarrow> bool" where
  "isRadixDigit R c = (case digitValue c of None \<Rightarrow> False | Some d \<Rightarrow> d < R)"

text \<open>\<^verbatim>\<open>parseInt(s)\<close> with no radix: leading white space is dropped (the ASCII white
  space only), then an optional sign, then \<^verbatim>\<open>0x\<close> or \<^verbatim>\<open>0X\<close> switches to radix 16, then the
  longest prefix of digits is read; no digit gives \<^verbatim>\<open>NaN\<close>. The value is the exact
  integer, and \<^verbatim>\<open>-0\<close> is 0.\<close>

definition parseInt :: "string \<Rightarrow> js_number" where
  "parseInt s =
     (let S = dropWhile isWhiteSpace s;
          sign = (if take 1 S = ''-'' then - 1 else 1 :: int);
          S1 = (if take 1 S = ''+'' \<or> take 1 S = ''-'' then drop 1 S else S);
          hex = (take 2 S1 = ''0x'' \<or> take 2 S1 = ''0X'');
          R = (if hex then 16 else 10 :: nat);
          S2 = (if hex then drop 2 S1 else S1);
          Z = takeWhile (isRadixDigit R) S2
      in if Z = [] then NaN
         else Num (sign * int (foldl (\<lambda>acc c. acc * R + the (digitValue c)) 0 Z)))"

text \<open>\<^verbatim>\<open>xs[index]\<close>: \<^verbatim>\<open>undefined\<close> (here \<open>None\<close>) unless the index is an integer in range.\<close>

fun elementAt :: "'a list \<Rightarrow> js_number \<Rightarrow> 'a option" where
  "elementAt xs NaN = None"
| "elementAt xs (Num i) = (if 0 \<le> i \<and> i < int (length xs) then Some (xs ! nat i) else None)"

text \<open>\<^verbatim>\<open>xs.includes(v)\<close> for a value that may be \<^verbatim>\<open>undefined\<close>; the stored arrays hold no
  \<^verbatim>\<open>undefined\<close>.\<close>

fun includes_js :: "'a list \<Rightarrow> 'a option \<Rightarrow> bool" where
  "includes_js xs None = False"
| "includes_js xs (Some v) = (v \<in> set xs)"

text \<open>\<^verbatim>\<open>xs.splice(start, deleteCount)\<close>: the removed elements and the array that is left.
  \<^verbatim>\<open>NaN\<close> as start is 0, a negative start counts from the end, and both numbers are
  clamped to the array.\<close>

definition splice_js :: "js_number \<Rightarrow> int \<Rightarrow> 'a list \<Rightarrow> 'a list \<times> 'a list" where
  "splice_js start deleteCount xs =
     (let len = int (length xs);
          relativeStart = (case start of NaN \<Rightarrow> 0 | Num i \<Rightarrow> i);
          actualStart = (if relativeStart < 0 then max (len + relativeStart) 0
                         else min relativeStart len);
          actualDeleteCount = min (max deleteCount 0) (len - actualStart)
      in (take (nat actualDeleteCount) (drop (nat actualStart) xs),
          take (nat actualStart) xs @ drop (nat (actualStart + actualDeleteCount)) xs))"


section \<open>The handlers\<close>

subsection \<open>Middleware\<close>

text \<open>What \<^verbatim>\<open>cashierAuthMiddleware\<close> finds: no \<^verbatim>\<open>Bearer\<close> header, a token that
  \<^verbatim>\<open>verifyIdToken\<close> rejects, or a verified user with the \<^verbatim>\<open>role\<close> of its document in
  \<^verbatim>\<open>users\<close> (if any).\<close>

datatype caller = NoToken | BadToken | Verified "string option"

fun cashierAuthMiddleware :: "caller \<Rightarrow> error + unit" where
  "cashierAuthMiddleware NoToken = Inl Unauthorized"
| "cashierAuthMiddleware BadToken = Inl Unauthorized"
| "cashierAuthMiddleware (Verified role) =
     (if role \<noteq> Some ''cashier'' \<and> role \<noteq> Some ''admin'' then Inl Forbidden else Inr ())"

text \<open>The schemas that \<^verbatim>\<open>validateRequest\<close> checks the body against.\<close>

definition addToOrderSchema :: "string \<Rightarrow> int \<Rightarrow> string option \<Rightarrow> bool" where
  "addToOrderSchema sku' quantity' color' \<longleftrightarrow> 1 \<le> length sku' \<and> 0 < quantity'"


definition updateOrderItemSchema :: "int option \<Rightarrow> string option \<Rightarrow> bool" where
  "updateOrderItemSchema quantity' listType \<longleftrightarrow>
     (case quantity' of None \<Rightarrow> True | Some q \<Rightarrow> 0 \<le> q) \<and>
     (case listType of None \<Rightarrow> True | Some l \<Rightarrow> l = ''buy'' \<or> l = ''wishlist'')"

subsection \<open>\<^verbatim>\<open>generateOrderCode\<close> and \<^verbatim>\<open>POST /orders\<close>\<close>

definition chars :: string where
  "chars = ''ABCDEFGHIJKLMNOPQRSTUVWXYZ0123456789''"





subsection \<open>\<^verbatim>\<open>POST /orders/:orderId/items\<close>\<close>

text \<open>The query \<^verbatim>\<open>where('sku', '==', sku).limit(1)\<close>: the first product with the SKU.\<close>

definition findProductBySku :: "db \<Rightarrow> string \<Rightarrow> (string \<times> product) option" where
  "findProductBySku d sku' = find (\<lambda>(pid, p). product_sku p = sku') (products d)"

definition addItemToOrder ::
  "db \<Rightarrow> timestamp \<Rightarrow> string \<Rightarrow> string \<Rightarrow> int \<Rightarrow> string option \<Rightarrow> error + (db \<times> order_item)" where
  "addItemToOrder d now orderId sku' quantity' color' =
     (if \<not> addToOrderSchema sku' quantity' color' then Inl ValidationError
      else case findProductBySku d sku' of
        None \<Rightarrow> Inl ProductNotFound
      | Some (productDocId, product) \<Rightarrow>
          (case map_of (orders d) orderId of
             None \<Rightarrow> Inl OrderNotFound
           | Some orderDoc \<Rightarrow>
               let item = \<lparr>productId = productDocId, sku = sku', name = product_name product,
                           price = product_price product, quantity = quantity',
                           color = (case color' of None \<Rightarrow> None
                                    | Some c \<Rightarrow> if c = [] then None else Some c),
                           addedAt = ServerTimestamp\<rparr>
               in if \<not> validateArrayElement item then Inl InternalError
                  else
                    Inr (d\<lparr>orders := doc_update orderId
                           (\<lambda>doc. doc\<lparr>items := arrayUnion (items doc) [item], updatedAt := now\<rparr>)
                           (orders d)\<rparr>, item)))"

subsection \<open>\<^verbatim>\<open>GET /orders/:orderId\<close> and \<^verbatim>\<open>GET /orders/code/:orderCode\<close>\<close>

text \<open>The \<^verbatim>\<open>reduce\<close> of both handlers (\<^verbatim>\<open>calculateSubtotal\<close> in the tests).\<close>

definition calculateSubtotal :: "order_item list \<Rightarrow> rat" where
  "calculateSubtotal its = foldl (\<lambda>sum item. sum + price item * of_int (quantity item)) 0 its"




subsection \<open>\<^verbatim>\<open>PUT /orders/:orderId/items/:itemIndex\<close>\<close>

text \<open>Lines 313 to 315: \<^verbatim>\<open>orderData.items[index].quantity = quantity\<close>. Where
  \<^verbatim>\<open>items[index]\<close> is \<^verbatim>\<open>undefined\<close> the assignment throws (\<open>None\<close>).\<close>

definition setQuantity :: "js_number \<Rightarrow> int option \<Rightarrow> order_item list \<Rightarrow> order_item list option" where
  "setQuantity index quantity' its =
     (case quantity' of
        None \<Rightarrow> Some its
      | Some q \<Rightarrow>
          if q \<ge> 0 then
            (case index of
               NaN \<Rightarrow> None
             | Num i \<Rightarrow> (case elementAt its index of
                          None \<Rightarrow> None
                        | Some it \<Rightarrow> Some (its[nat i := it\<lparr>quantity := q\<rparr>])))
          else Some its)"

text \<open>Lines 317 to 326: the move between the two lists, as the pair of \<^verbatim>\<open>items\<close> and
  \<^verbatim>\<open>wishlistItems\<close> afterwards. Where \<^verbatim>\<open>splice\<close> removes nothing, \<^verbatim>\<open>undefined\<close> is pushed,
  which \<^verbatim>\<open>update\<close> refuses to store: the request ends in the \<^verbatim>\<open>catch\<close> block
  (\<open>None\<close>).\<close>

definition moveItem ::
  "js_number \<Rightarrow> string option \<Rightarrow> order_item list \<Rightarrow> order_item list
    \<Rightarrow> (order_item list \<times> order_item list) option" where
  "moveItem index listType its wl =
     (case listType of
        None \<Rightarrow> Some (its, wl)
      | Some l \<Rightarrow>
          if l = [] then Some (its, wl)
          else if l = ''wishlist'' then
            (case splice_js index 1 its of
               ([], its') \<Rightarrow> None
             | (item # _, its') \<Rightarrow> Some (its', wl @ [item]))
          else if l = ''buy'' \<and> \<not> includes_js its (elementAt its index) then
            (case splice_js index 1 wl of
               ([], wl') \<Rightarrow> None
             | (item # _, wl') \<Rightarrow> Some (its @ [item], wl'))
          else Some (its, wl))"

definition updateOrderItem ::
  "db \<Rightarrow> timestamp \<Rightarrow> string \<Rightarrow> string \<Rightarrow> int option \<Rightarrow> string option \<Rightarrow> error + db" where
  "updateOrderItem d now orderId itemIndex quantity' listType =
     (if \<not> updateOrderItemSchema quantity' listType then Inl ValidationError
      else
        let index = parseInt itemIndex in
        case map_of (orders d) orderId of
          None \<Rightarrow> Inl OrderNotFound
        | Some orderData \<Rightarrow>
            if js_lt index (Num 0) \<or> js_ge index (Num (int (length (items orderData))))
            then Inl InvalidItemIndex
            else
              (case setQuantity index quantity' (items orderData) of
                 None \<Rightarrow> Inl InternalError
               | Some items1 \<Rightarrow>
                   (case moveItem index listType items1 (wishlistItems orderData) of
                      None \<Rightarrow> Inl InternalError
                    | Some (items2, wishlistItems2) \<Rightarrow>
                        Inr (d\<lparr>orders := doc_update orderId
                               (\<lambda>doc. doc\<lparr>items := items2, wishlistItems := wishlistItems2,
                                      updatedAt := now\<rparr>)
                               (orders d)\<rparr>))))"

subsection \<open>\<^verbatim>\<open>DELETE /orders/:orderId/items/:itemIndex\<close>\<close>

definition removeOrderItem :: "db \<Rightarrow> timestamp \<Rightarrow> string \<Rightarrow> string \<Rightarrow> error + db" where
  "removeOrderItem d now orderId itemIndex =
     (let index = parseInt itemIndex in
      case map_of (orders d) orderId of
        None \<Rightarrow> Inl OrderNotFound
      | Some orderData \<Rightarrow>
          if js_lt index (Num 0) \<or> js_ge index (Num (int (length (items orderData))))
          then Inl InvalidItemIndex
          else
            Inr (d\<lparr>orders := doc_update orderId
                   (\<lambda>doc. doc\<lparr>items := snd (splice_js index 1 (items orderData)), updatedAt := now\<rparr>)
                   (orders d)\<rparr>))"

subsection \<open>\<^verbatim>\<open>POST /orders/:orderId/close\<close> and \<^verbatim>\<open>PUT /orders/:orderId/status\<close>\<close>

definition closeOrder :: "db \<Rightarrow> timestamp \<Rightarrow> string \<Rightarrow> error + db" where
  "closeOrder d now orderId =
     (case map_of (orders d) orderId of
        None \<Rightarrow> Inl OrderNotFound
      | Some orderDoc \<Rightarrow>
          Inr (d\<lparr>orders := doc_update orderId
                 (\<lambda>doc. doc\<lparr>status := ''closed'', closedAt := Some now\<rparr>) (orders d)\<rparr>))"

definition validStatuses :: "string list" where
  "validStatuses = [''pending'', ''confirmed'', ''processing'', ''ready'', ''completed'', ''cancelled'']"

definition setOrderStatus :: "db \<Rightarrow> timestamp \<Rightarrow> caller \<Rightarrow> string \<Rightarrow> string \<Rightarrow> error + db" where
  "setOrderStatus d now c orderId status' =
     (case cashierAuthMiddleware c of
        Inl e \<Rightarrow> Inl e
      | Inr _ \<Rightarrow>
          if status' \<notin> set validStatuses then Inl InvalidStatus
          else
            (case map_of (orders d) orderId of
               None \<Rightarrow> Inl OrderNotFound
             | Some orderDoc \<Rightarrow>
                 Inr (d\<lparr>orders := doc_update orderId
                        (\<lambda>doc. doc\<lparr>status := status', updatedAt := now\<rparr>) (orders d)\<rparr>)))"


section \<open>A small shop, for concrete runs\<close>

definition mate :: order_item where
  "mate = \<lparr>productId = ''p1'', sku = ''SKU001'', name = ''Mate'', price = 100,
            quantity = 2, color = None, addedAt = Time 1\<rparr>"

definition termo :: order_item where
  "termo = \<lparr>productId = ''p2'', sku = ''SKU002'', name = ''Termo'', price = 50,
             quantity = 3, color = Some ''rojo'', addedAt = Time 2\<rparr>"

definition yerba :: order_item where
  "yerba = \<lparr>productId = ''p3'', sku = ''SKU003'', name = ''Yerba'', price = 25,
             quantity = 1, color = None, addedAt = Time 3\<rparr>"

text \<open>An order with two items to buy and one wished for, and one whose only item is on
  the wish list.\<close>

definition cart :: order where
  "cart = \<lparr>clientId = ''c1'', status = ''pending'', items = [mate, termo],
            wishlistItems = [yerba], createdAt = 0, updatedAt = 3,
            orderCode = Some ''ABCD1234'', closedAt = None\<rparr>"

definition wishes :: order where
  "wishes = \<lparr>clientId = ''c2'', status = ''ready'', items = [],
              wishlistItems = [yerba], createdAt = 4, updatedAt = 4,
              orderCode = Some ''ZZZZ9999'', closedAt = None\<rparr>"

definition shop :: db where
  "shop = \<lparr>orders = [(''o1'', cart), (''o2'', wishes)],
            products = [(''p1'', \<lparr>product_sku = ''SKU001'', product_name = ''Mate'',
                                  product_price = 100\<rparr>)]\<rparr>"



section \<open>Facts about the store and the array operations\<close>

lemma map_of_doc_update:
  "map_of (doc_update k f ds) = (map_of ds)(k := map_option f (map_of ds k))"
  by (induction ds) (auto simp: fun_eq_iff)

lemma splice_js_in_range:
  assumes "0 \<le> i" and "i < int (length xs)"
  shows "splice_js (Num i) 1 xs = ([xs ! nat i], take (nat i) xs @ drop (Suc (nat i)) xs)"
proof -
  have n: "nat i < length xs" using assms by linarith
  have "take (Suc 0) (drop (nat i) xs) = [xs ! nat i]"
    using n by (metis Cons_nth_drop_Suc take0 take_Suc_Cons)
  moreover have "nat (i + 1) = Suc (nat i)" using assms by linarith
  ultimately show ?thesis
    using assms by (simp add: splice_js_def Let_def min_def max_def)
qed

lemma splice_js_NaN: "splice_js NaN 1 (x # xs) = ([x], xs)"
  by (simp add: splice_js_def)


section \<open>Closing an order\<close>

text \<open>
  C8. \<^verbatim>\<open>closeOrder\<close> answers Not Found when no order has the id. Any order that exists is
  closed, whatever its status was: the status becomes \<^verbatim>\<open>closed\<close>, \<^verbatim>\<open>closedAt\<close> is the
  time of the write, and every other field of the order (the two item lists, the order
  code, the client id, both other timestamps), every other order and the products stay
  as they were.
\<close>

theorem closeOrder_frame:
  "(map_of (orders d) orderId = None \<longrightarrow> closeOrder d now orderId = Inl OrderNotFound) \<and>
   (\<forall>doc. map_of (orders d) orderId = Some doc \<longrightarrow>
      (\<exists>d' doc'. closeOrder d now orderId = Inr d' \<and>
         map_of (orders d') orderId = Some doc' \<and>
         doc' = doc\<lparr>status := ''closed'', closedAt := Some now\<rparr> \<and>
         items doc' = items doc \<and> wishlistItems doc' = wishlistItems doc \<and>
         orderCode doc' = orderCode doc \<and> clientId doc' = clientId doc \<and>
         createdAt doc' = createdAt doc \<and> updatedAt doc' = updatedAt doc \<and>
         (\<forall>k. k \<noteq> orderId \<longrightarrow> map_of (orders d') k = map_of (orders d) k) \<and>
         products d' = products d))"
  by (simp add: closeOrder_def map_of_doc_update)

theorem closeOrder_frame_witness:
  "map_of (orders shop) ''o2'' = Some wishes \<and>
   map_of (orders shop) ''o9'' = None \<and>
   closeOrder shop 7 ''o9'' = Inl OrderNotFound \<and>
   closeOrder shop 7 ''o2'' =
     Inr (shop\<lparr>orders := [(''o1'', cart),
                           (''o2'', wishes\<lparr>status := ''closed'', closedAt := Some 7\<rparr>)]\<rparr>)"
  using closeOrder_frame [of shop "''o2''" 7] closeOrder_frame [of shop "''o9''" 7]
  by (simp add: shop_def closeOrder_def)


section \<open>Setting the status\<close>

lemma setOrderStatus_unfold:
  assumes "cashierAuthMiddleware c = Inr u" and "map_of (orders d) orderId = Some doc"
  shows "setOrderStatus d now c orderId s =
     (if s \<notin> set validStatuses then Inl InvalidStatus
      else Inr (d\<lparr>orders := doc_update orderId
                        (\<lambda>doc. doc\<lparr>status := s, updatedAt := now\<rparr>) (orders d)\<rparr>))"
  unfolding setOrderStatus_def by (simp only: assms sum.case option.case)

text \<open>
  C5. For a caller that passes the cashier check and an order that exists,
  \<^verbatim>\<open>setOrderStatus\<close> succeeds exactly for the six strings \<^verbatim>\<open>pending\<close>, \<^verbatim>\<open>confirmed\<close>,
  \<^verbatim>\<open>processing\<close>, \<^verbatim>\<open>ready\<close>, \<^verbatim>\<open>completed\<close> and \<^verbatim>\<open>cancelled\<close>: it then stores the
  status and \<^verbatim>\<open>updatedAt\<close> in that order and changes nothing else. Every other string,
  \<^verbatim>\<open>shipped\<close> and \<^verbatim>\<open>closed\<close> among them, is answered with Invalid Status.
\<close>

theorem setOrderStatus_six_statuses:
  assumes "cashierAuthMiddleware c = Inr ()" and "map_of (orders d) orderId = Some doc"
  shows "set validStatuses =
           {''pending'', ''confirmed'', ''processing'', ''ready'', ''completed'', ''cancelled''} \<and>
         (status' \<in> set validStatuses \<longrightarrow>
            (\<exists>d'. setOrderStatus d now c orderId status' = Inr d' \<and>
               map_of (orders d') orderId = Some (doc\<lparr>status := status', updatedAt := now\<rparr>) \<and>
               (\<forall>k. k \<noteq> orderId \<longrightarrow> map_of (orders d') k = map_of (orders d) k) \<and>
               products d' = products d)) \<and>
         (status' \<notin> set validStatuses \<longrightarrow>
            setOrderStatus d now c orderId status' = Inl InvalidStatus) \<and>
         setOrderStatus d now c orderId ''shipped'' = Inl InvalidStatus \<and>
         setOrderStatus d now c orderId ''closed'' = Inl InvalidStatus"
proof -
  let ?d' = "d\<lparr>orders := doc_update orderId
                 (\<lambda>doc. doc\<lparr>status := status', updatedAt := now\<rparr>) (orders d)\<rparr>"
  have v: "set validStatuses =
           {''pending'', ''confirmed'', ''processing'', ''ready'', ''completed'', ''cancelled''}"
    by (simp add: validStatuses_def)
  have run: "status' \<in> set validStatuses \<Longrightarrow> setOrderStatus d now c orderId status' = Inr ?d'"
    by (simp only: setOrderStatus_unfold [OF assms] not_not if_False simp_thms)
  have stored: "map_of (orders ?d') orderId = Some (doc\<lparr>status := status', updatedAt := now\<rparr>)"
    using assms(2) by (simp add: map_of_doc_update)
  have others: "\<forall>k. k \<noteq> orderId \<longrightarrow> map_of (orders ?d') k = map_of (orders d) k"
    by (simp add: map_of_doc_update)
  have prods: "products ?d' = products d"
    by simp
  have ok: "status' \<in> set validStatuses \<longrightarrow>
            (\<exists>d'. setOrderStatus d now c orderId status' = Inr d' \<and>
               map_of (orders d') orderId = Some (doc\<lparr>status := status', updatedAt := now\<rparr>) \<and>
               (\<forall>k. k \<noteq> orderId \<longrightarrow> map_of (orders d') k = map_of (orders d) k) \<and>
               products d' = products d)"
  proof (intro impI exI [of _ ?d'] conjI)
    assume "status' \<in> set validStatuses"
    then show "setOrderStatus d now c orderId status' = Inr ?d'" by (rule run)
  qed (rule stored others prods)+
  have bad: "s \<notin> set validStatuses \<Longrightarrow> setOrderStatus d now c orderId s = Inl InvalidStatus" for s
    by (simp only: setOrderStatus_unfold [OF assms] if_True simp_thms)
  have bad': "status' \<notin> set validStatuses \<longrightarrow>
            setOrderStatus d now c orderId status' = Inl InvalidStatus"
    by (intro impI) (rule bad)
  have shipped: "setOrderStatus d now c orderId ''shipped'' = Inl InvalidStatus"
    by (rule bad) (simp add: validStatuses_def)
  have closed: "setOrderStatus d now c orderId ''closed'' = Inl InvalidStatus"
    by (rule bad) (simp add: validStatuses_def)
  show ?thesis
    by (intro conjI) (rule v ok bad' shipped closed)+
qed

theorem setOrderStatus_six_statuses_witness:
  "cashierAuthMiddleware (Verified (Some ''cashier'')) = Inr () \<and>
   map_of (orders shop) ''o1'' = Some cart \<and>
   ''completed'' \<in> set validStatuses \<and> ''shipped'' \<notin> set validStatuses \<and>
   setOrderStatus shop 8 (Verified (Some ''cashier'')) ''o1'' ''completed'' =
     Inr (shop\<lparr>orders := [(''o1'', cart\<lparr>status := ''completed'', updatedAt := 8\<rparr>),
                           (''o2'', wishes)]\<rparr>) \<and>
   setOrderStatus shop 8 (Verified (Some ''cashier'')) ''o1'' ''shipped'' = Inl InvalidStatus"
  using setOrderStatus_six_statuses [of "Verified (Some ''cashier'')" shop "''o1''" cart "''completed''" 8]
    setOrderStatus_six_statuses [of "Verified (Some ''cashier'')" shop "''o1''" cart "''shipped''" 8]
  by (simp add: shop_def setOrderStatus_def validStatuses_def)

section \<open>Reading an order\<close>

text \<open>The three sums of the test file; 9999.99 is the fraction 999999/100.\<close>

lemma calculateSubtotal_examples:
  "calculateSubtotal [] = 0"
  "calculateSubtotal [mate\<lparr>price := 100, quantity := 2\<rparr>, mate\<lparr>price := 50, quantity := 3\<rparr>,
     mate\<lparr>price := 25, quantity := 1\<rparr>] = 375"
  "calculateSubtotal [mate\<lparr>price := 999999 / 100, quantity := 1\<rparr>] = 999999 / 100"
  by (simp_all add: calculateSubtotal_def)




section \<open>Removing an item\<close>

lemmas parseInt_simps = parseInt_def isWhiteSpace_def isRadixDigit_def digitValue_def

lemma removeOrderItem_unfold:
  assumes "map_of (orders d) orderId = Some doc" and "parseInt itemIndex = index"
  shows "removeOrderItem d now orderId itemIndex =
     (if js_lt index (Num 0) \<or> js_ge index (Num (int (length (items doc))))
      then Inl InvalidItemIndex
      else Inr (d\<lparr>orders := doc_update orderId
                   (\<lambda>doc'. doc'\<lparr>items := snd (splice_js index 1 (items doc)), updatedAt := now\<rparr>)
                   (orders d)\<rparr>))"
  unfolding removeOrderItem_def Let_def by (simp only: assms option.case)

lemma remove_nth_shift:
  assumes "n < length xs"
  shows "length (take n xs @ drop (Suc n) xs) = length xs - 1"
    and "\<forall>j<n. (take n xs @ drop (Suc n) xs) ! j = xs ! j"
    and "\<forall>j. n \<le> j \<and> j < length xs - 1 \<longrightarrow> (take n xs @ drop (Suc n) xs) ! j = xs ! Suc j"
  using assms by (auto simp: nth_append min_def)

text \<open>
  C6. On an order that exists, with an index that \<^verbatim>\<open>parseInt\<close> reads as the integer \<open>i\<close>:
  if \<open>0 \<le> i < length items\<close>, \<^verbatim>\<open>removeOrderItem\<close> deletes exactly the item at position
  \<open>i\<close> (the items before it keep their place, the items after it move one place to the
  left, the list is one shorter) and leaves \<^verbatim>\<open>wishlistItems\<close> as it was; if \<open>i < 0\<close>
  or \<open>i \<ge> length items\<close>, it fails with Invalid Index and nothing is written.
\<close>

theorem removeOrderItem_in_and_out_of_range:
  assumes "map_of (orders d) orderId = Some doc" and "parseInt itemIndex = Num i"
  shows "(0 \<le> i \<and> i < int (length (items doc)) \<longrightarrow>
           (\<exists>d' doc'. removeOrderItem d now orderId itemIndex = Inr d' \<and>
              map_of (orders d') orderId = Some doc' \<and>
              doc' = doc\<lparr>items := take (nat i) (items doc) @ drop (Suc (nat i)) (items doc),
                          updatedAt := now\<rparr> \<and>
              length (items doc') = length (items doc) - 1 \<and>
              (\<forall>j < nat i. items doc' ! j = items doc ! j) \<and>
              (\<forall>j. nat i \<le> j \<and> j < length (items doc) - 1 \<longrightarrow> items doc' ! j = items doc ! Suc j) \<and>
              wishlistItems doc' = wishlistItems doc)) \<and>
         (i < 0 \<or> int (length (items doc)) \<le> i \<longrightarrow>
            removeOrderItem d now orderId itemIndex = Inl InvalidItemIndex)"
proof (intro conjI impI)
  assume r: "0 \<le> i \<and> i < int (length (items doc))"
  let ?its = "take (nat i) (items doc) @ drop (Suc (nat i)) (items doc)"
  let ?doc' = "doc\<lparr>items := ?its, updatedAt := now\<rparr>"
  let ?d' = "d\<lparr>orders := doc_update orderId
                   (\<lambda>doc'. doc'\<lparr>items := snd (splice_js (Num i) 1 (items doc)), updatedAt := now\<rparr>)
                   (orders d)\<rparr>"
  have n: "nat i < length (items doc)" using r by linarith
  have run: "removeOrderItem d now orderId itemIndex = Inr ?d'"
    using r by (simp add: removeOrderItem_unfold [OF assms])
  have stored: "map_of (orders ?d') orderId = Some ?doc'"
    using r assms(1) by (simp add: map_of_doc_update splice_js_in_range)
  have shape: "length (items ?doc') = length (items doc) - 1 \<and>
              (\<forall>j < nat i. items ?doc' ! j = items doc ! j) \<and>
              (\<forall>j. nat i \<le> j \<and> j < length (items doc) - 1 \<longrightarrow> items ?doc' ! j = items doc ! Suc j) \<and>
              wishlistItems ?doc' = wishlistItems doc"
    using remove_nth_shift [OF n] by simp
  show "\<exists>d' doc'. removeOrderItem d now orderId itemIndex = Inr d' \<and>
              map_of (orders d') orderId = Some doc' \<and>
              doc' = doc\<lparr>items := take (nat i) (items doc) @ drop (Suc (nat i)) (items doc),
                          updatedAt := now\<rparr> \<and>
              length (items doc') = length (items doc) - 1 \<and>
              (\<forall>j < nat i. items doc' ! j = items doc ! j) \<and>
              (\<forall>j. nat i \<le> j \<and> j < length (items doc) - 1 \<longrightarrow> items doc' ! j = items doc ! Suc j) \<and>
              wishlistItems doc' = wishlistItems doc"
    using run stored shape by (intro exI [of _ ?d'] exI [of _ ?doc']) simp
next
  assume "i < 0 \<or> int (length (items doc)) \<le> i"
  then show "removeOrderItem d now orderId itemIndex = Inl InvalidItemIndex"
    by (simp add: removeOrderItem_unfold [OF assms])
qed

theorem removeOrderItem_in_and_out_of_range_witness:
  "map_of (orders shop) ''o1'' = Some cart \<and>
   parseInt ''0'' = Num 0 \<and> parseInt ''2'' = Num 2 \<and> parseInt ''-1'' = Num (- 1) \<and>
   removeOrderItem shop 6 ''o1'' ''0'' =
     Inr (shop\<lparr>orders := [(''o1'', cart\<lparr>items := [termo], updatedAt := 6\<rparr>), (''o2'', wishes)]\<rparr>) \<and>
   removeOrderItem shop 6 ''o1'' ''2'' = Inl InvalidItemIndex \<and>
   removeOrderItem shop 6 ''o1'' ''-1'' = Inl InvalidItemIndex"
  using removeOrderItem_in_and_out_of_range [where d = shop and orderId = "''o1''" and doc = cart
      and itemIndex = "''0''" and i = 0 and now = 6]
    removeOrderItem_in_and_out_of_range [where d = shop and orderId = "''o1''" and doc = cart
      and itemIndex = "''2''" and i = 2 and now = 6]
    removeOrderItem_in_and_out_of_range [where d = shop and orderId = "''o1''" and doc = cart
      and itemIndex = "''-1''" and i = "- 1" and now = 6]
  by (simp add: shop_def cart_def removeOrderItem_def parseInt_simps splice_js_def)

section \<open>Updating an item\<close>

lemma updateOrderItem_unfold:
  assumes "map_of (orders d) orderId = Some doc" and "parseInt itemIndex = index"
    and "updateOrderItemSchema q lt"
  shows "updateOrderItem d now orderId itemIndex q lt =
     (if js_lt index (Num 0) \<or> js_ge index (Num (int (length (items doc))))
      then Inl InvalidItemIndex
      else
        (case setQuantity index q (items doc) of
           None \<Rightarrow> Inl InternalError
         | Some items1 \<Rightarrow>
             (case moveItem index lt items1 (wishlistItems doc) of
                None \<Rightarrow> Inl InternalError
              | Some (items2, wishlistItems2) \<Rightarrow>
                  Inr (d\<lparr>orders := doc_update orderId
                         (\<lambda>doc'. doc'\<lparr>items := items2, wishlistItems := wishlistItems2,
                                      updatedAt := now\<rparr>)
                         (orders d)\<rparr>))))"
  unfolding updateOrderItem_def Let_def by (simp only: assms option.case not_True_eq_False if_False)

lemma setQuantity_in_range:
  assumes "0 \<le> i" and "i < int (length its)" and "0 \<le> q"
  shows "setQuantity (Num i) (Some q) its = Some (its[nat i := (its ! nat i)\<lparr>quantity := q\<rparr>])"
  using assms by (simp add: setQuantity_def)

lemma moveItem_none: "moveItem index None its wl = Some (its, wl)"
  by (simp add: moveItem_def)

lemma moveItem_buy_in_range:
  assumes "0 \<le> i" and "i < int (length its)"
  shows "moveItem (Num i) (Some ''buy'') its wl = Some (its, wl)"
  using assms by (simp add: moveItem_def)

lemma moveItem_wishlist_in_range:
  assumes "0 \<le> i" and "i < int (length its)"
  shows "moveItem (Num i) (Some ''wishlist'') its wl =
           Some (take (nat i) its @ drop (Suc (nat i)) its, wl @ [its ! nat i])"
  using assms by (simp add: moveItem_def splice_js_in_range)

lemmas updateOrderItem_simps =
  updateOrderItem_def updateOrderItemSchema_def setQuantity_def moveItem_def splice_js_def
  parseInt_simps

text \<open>
  C7. On an order that exists, with an index in range of \<^verbatim>\<open>items\<close>, a request with
  quantity 0 writes the zero: without a move (no \<^verbatim>\<open>listType\<close>, or \<^verbatim>\<open>buy\<close>) the item
  stays at its index in \<^verbatim>\<open>items\<close>, the same item but for its quantity 0, and the list
  keeps its length; with a move to \<^verbatim>\<open>wishlist\<close> the item arrives at the end of the wish
  list with quantity 0. In no case is the item dropped or the update skipped.
\<close>

theorem updateOrderItem_quantity_zero:
  assumes "map_of (orders d) orderId = Some doc" and "parseInt itemIndex = Num i"
    and "0 \<le> i" and "i < int (length (items doc))"
  shows "(lt = None \<or> lt = Some ''buy'' \<longrightarrow>
           (\<exists>d' doc'. updateOrderItem d now orderId itemIndex (Some 0) lt = Inr d' \<and>
              map_of (orders d') orderId = Some doc' \<and>
              doc' = doc\<lparr>items := (items doc)[nat i := (items doc ! nat i)\<lparr>quantity := 0\<rparr>],
                          updatedAt := now\<rparr> \<and>
              length (items doc') = length (items doc) \<and>
              items doc' ! nat i = (items doc ! nat i)\<lparr>quantity := 0\<rparr> \<and>
              quantity (items doc' ! nat i) = 0 \<and>
              wishlistItems doc' = wishlistItems doc)) \<and>
         (lt = Some ''wishlist'' \<longrightarrow>
           (\<exists>d' doc'. updateOrderItem d now orderId itemIndex (Some 0) lt = Inr d' \<and>
              map_of (orders d') orderId = Some doc' \<and>
              doc' = doc\<lparr>items := take (nat i) (items doc) @ drop (Suc (nat i)) (items doc),
                          wishlistItems := wishlistItems doc @ [(items doc ! nat i)\<lparr>quantity := 0\<rparr>],
                          updatedAt := now\<rparr> \<and>
              quantity (last (wishlistItems doc')) = 0))"
proof -
  let ?its = "items doc" and ?wl = "wishlistItems doc"
  let ?zero = "(?its ! nat i)\<lparr>quantity := 0\<rparr>"
  let ?items1 = "?its[nat i := ?zero]"
  have n: "nat i < length ?its" using assms(3,4) by linarith
  have check: "\<not> (js_lt (Num i) (Num 0) \<or> js_ge (Num i) (Num (int (length ?its))))"
    using assms(3,4) by simp
  have setq: "setQuantity (Num i) (Some 0) ?its = Some ?items1"
    using assms(3,4) by (simp add: setQuantity_in_range)
  have len1: "i < int (length ?items1)" using assms(4) by simp
  have run: "updateOrderItemSchema (Some 0) lt \<Longrightarrow> moveItem (Num i) lt ?items1 ?wl = Some (its2, wl2) \<Longrightarrow>
      updateOrderItem d now orderId itemIndex (Some 0) lt =
        Inr (d\<lparr>orders := doc_update orderId
               (\<lambda>doc'. doc'\<lparr>items := its2, wishlistItems := wl2, updatedAt := now\<rparr>) (orders d)\<rparr>)"
    for its2 wl2
    using check setq by (simp add: updateOrderItem_unfold [OF assms(1,2)])
  have stored: "map_of (orders (d\<lparr>orders := doc_update orderId
               (\<lambda>doc'. doc'\<lparr>items := its2, wishlistItems := wl2, updatedAt := now\<rparr>) (orders d)\<rparr>)) orderId
        = Some (doc\<lparr>items := its2, wishlistItems := wl2, updatedAt := now\<rparr>)" for its2 wl2
    using assms(1) by (simp add: map_of_doc_update)
  show ?thesis
  proof (intro conjI impI)
    assume lt: "lt = None \<or> lt = Some ''buy''"
    then have schema: "updateOrderItemSchema (Some 0) lt"
      by (elim disjE) (simp_all add: updateOrderItemSchema_def)
    from lt have mv: "moveItem (Num i) lt ?items1 ?wl = Some (?items1, ?wl)"
      using moveItem_none moveItem_buy_in_range [OF assms(3) len1] by (elim disjE) simp_all
    let ?doc' = "doc\<lparr>items := ?items1, wishlistItems := ?wl, updatedAt := now\<rparr>"
    show "\<exists>d' doc'. updateOrderItem d now orderId itemIndex (Some 0) lt = Inr d' \<and>
              map_of (orders d') orderId = Some doc' \<and>
              doc' = doc\<lparr>items := (items doc)[nat i := (items doc ! nat i)\<lparr>quantity := 0\<rparr>],
                          updatedAt := now\<rparr> \<and>
              length (items doc') = length (items doc) \<and>
              items doc' ! nat i = (items doc ! nat i)\<lparr>quantity := 0\<rparr> \<and>
              quantity (items doc' ! nat i) = 0 \<and>
              wishlistItems doc' = wishlistItems doc"
      using run [OF schema mv] stored [where ?its2.0 = ?items1 and ?wl2.0 = ?wl] n
      by (intro exI [of _ "d\<lparr>orders := doc_update orderId
               (\<lambda>doc'. doc'\<lparr>items := ?items1, wishlistItems := ?wl, updatedAt := now\<rparr>) (orders d)\<rparr>"]
             exI [of _ ?doc']) simp
  next
    assume lt: "lt = Some ''wishlist''"
    then have schema: "updateOrderItemSchema (Some 0) lt"
      by (simp add: updateOrderItemSchema_def)
    let ?its2 = "take (nat i) ?its @ drop (Suc (nat i)) ?its"
    let ?wl2 = "?wl @ [?zero]"
    from lt have mv: "moveItem (Num i) lt ?items1 ?wl = Some (?its2, ?wl2)"
      using moveItem_wishlist_in_range [OF assms(3) len1, of ?wl] n by simp
    let ?doc' = "doc\<lparr>items := ?its2, wishlistItems := ?wl2, updatedAt := now\<rparr>"
    show "\<exists>d' doc'. updateOrderItem d now orderId itemIndex (Some 0) lt = Inr d' \<and>
              map_of (orders d') orderId = Some doc' \<and>
              doc' = doc\<lparr>items := take (nat i) (items doc) @ drop (Suc (nat i)) (items doc),
                          wishlistItems := wishlistItems doc @ [(items doc ! nat i)\<lparr>quantity := 0\<rparr>],
                          updatedAt := now\<rparr> \<and>
              quantity (last (wishlistItems doc')) = 0"
      using run [OF schema mv] stored [where ?its2.0 = ?its2 and ?wl2.0 = ?wl2]
      by (intro exI [of _ "d\<lparr>orders := doc_update orderId
               (\<lambda>doc'. doc'\<lparr>items := ?its2, wishlistItems := ?wl2, updatedAt := now\<rparr>) (orders d)\<rparr>"]
             exI [of _ ?doc']) simp
  qed
qed

theorem updateOrderItem_quantity_zero_witness:
  "map_of (orders shop) ''o1'' = Some cart \<and> parseInt ''1'' = Num 1 \<and>
   (0::int) \<le> 1 \<and> 1 < int (length (items cart)) \<and>
   updateOrderItem shop 6 ''o1'' ''1'' (Some 0) None =
     Inr (shop\<lparr>orders := [(''o1'', cart\<lparr>items := [mate, termo\<lparr>quantity := 0\<rparr>], updatedAt := 6\<rparr>),
                           (''o2'', wishes)]\<rparr>) \<and>
   updateOrderItem shop 6 ''o1'' ''1'' (Some 0) (Some ''wishlist'') =
     Inr (shop\<lparr>orders := [(''o1'', cart\<lparr>items := [mate],
                                       wishlistItems := [yerba, termo\<lparr>quantity := 0\<rparr>],
                                       updatedAt := 6\<rparr>),
                           (''o2'', wishes)]\<rparr>)"
  using updateOrderItem_quantity_zero [where d = shop and orderId = "''o1''" and doc = cart
      and itemIndex = "''1''" and i = 1 and now = 6 and lt = None]
    updateOrderItem_quantity_zero [where d = shop and orderId = "''o1''" and doc = cart
      and itemIndex = "''1''" and i = 1 and now = 6 and lt = "Some ''wishlist''"]
  by (simp add: shop_def cart_def updateOrderItem_simps)

section \<open>An index that is not a number\<close>

text \<open>
  C10. When \<^verbatim>\<open>parseInt\<close> reads the path parameter as \<^verbatim>\<open>NaN\<close>, both comparisons of the
  bounds check are false. \<^verbatim>\<open>removeOrderItem\<close> on an existing order therefore never
  answers Invalid Index, and with a non-empty \<^verbatim>\<open>items\<close> it removes the item at position
  0. \<^verbatim>\<open>updateOrderItem\<close> passes the check too: whatever the body, its answer is not
  Invalid Index, and with an empty body it succeeds.
\<close>

theorem nan_index_passes_bounds_check:
  assumes "map_of (orders d) orderId = Some doc" and "parseInt itemIndex = NaN"
  shows "removeOrderItem d now orderId itemIndex \<noteq> Inl InvalidItemIndex \<and>
         (\<forall>x xs. items doc = x # xs \<longrightarrow>
            (\<exists>d'. removeOrderItem d now orderId itemIndex = Inr d' \<and>
               map_of (orders d') orderId = Some (doc\<lparr>items := xs, updatedAt := now\<rparr>))) \<and>
         updateOrderItem d now orderId itemIndex q lt \<noteq> Inl InvalidItemIndex \<and>
         (\<exists>d'. updateOrderItem d now orderId itemIndex None None = Inr d' \<and>
               map_of (orders d') orderId = Some (doc\<lparr>updatedAt := now\<rparr>))"
proof (intro conjI allI impI)
  show "removeOrderItem d now orderId itemIndex \<noteq> Inl InvalidItemIndex"
    by (simp add: removeOrderItem_unfold [OF assms])
next
  fix x xs assume "items doc = x # xs"
  then show "\<exists>d'. removeOrderItem d now orderId itemIndex = Inr d' \<and>
               map_of (orders d') orderId = Some (doc\<lparr>items := xs, updatedAt := now\<rparr>)"
    using assms(1) by (simp add: removeOrderItem_unfold [OF assms] map_of_doc_update splice_js_NaN)
next
  show "updateOrderItem d now orderId itemIndex q lt \<noteq> Inl InvalidItemIndex"
  proof (cases "updateOrderItemSchema q lt")
    case True
    show ?thesis
      by (simp add: updateOrderItem_unfold [OF assms True] split: option.split prod.split)
  next
    case False
    then show ?thesis by (simp add: updateOrderItem_def)
  qed
next
  have schema: "updateOrderItemSchema None None"
    by (simp add: updateOrderItemSchema_def)
  show "\<exists>d'. updateOrderItem d now orderId itemIndex None None = Inr d' \<and>
               map_of (orders d') orderId = Some (doc\<lparr>updatedAt := now\<rparr>)"
    using assms(1)
    by (simp add: updateOrderItem_unfold [OF assms schema] setQuantity_def moveItem_none
        map_of_doc_update)
qed

theorem nan_index_passes_bounds_check_witness:
  "map_of (orders shop) ''o1'' = Some cart \<and> parseInt ''abc'' = NaN \<and>
   removeOrderItem shop 6 ''o1'' ''abc'' =
     Inr (shop\<lparr>orders := [(''o1'', cart\<lparr>items := [termo], updatedAt := 6\<rparr>), (''o2'', wishes)]\<rparr>) \<and>
   updateOrderItem shop 6 ''o1'' ''abc'' None (Some ''buy'') =
     Inr (shop\<lparr>orders := [(''o1'', cart\<lparr>items := [mate, termo, yerba], wishlistItems := [],
                                       updatedAt := 6\<rparr>), (''o2'', wishes)]\<rparr>) \<and>
   updateOrderItem shop 6 ''o1'' ''abc'' (Some 5) None = Inl InternalError"
  using nan_index_passes_bounds_check [where d = shop and orderId = "''o1''" and doc = cart
      and itemIndex = "''abc''" and now = 6 and q = None and lt = "Some ''buy''"]
  by (simp add: shop_def cart_def removeOrderItem_def updateOrderItem_simps)

section \<open>Moving an item back from the wish list\<close>

text \<open>For an integer index that passes the bounds check, \<^verbatim>\<open>items[index]\<close> is an element
  of \<^verbatim>\<open>items\<close>, so the guard \<^verbatim>\<open>!orderData.items.includes(orderData.items[index])\<close> of
  the \<^verbatim>\<open>buy\<close> branch is false and the branch is never taken: a successful request to
  move to \<^verbatim>\<open>buy\<close> only stamps \<^verbatim>\<open>updatedAt\<close>.\<close>

lemma updateOrderItem_buy_integer_index:
  assumes "map_of (orders d) orderId = Some doc" and "parseInt itemIndex = Num i"
    and "updateOrderItem d now orderId itemIndex None (Some ''buy'') = Inr d'"
  shows "map_of (orders d') orderId = Some (doc\<lparr>updatedAt := now\<rparr>)"
proof -
  have schema: "updateOrderItemSchema None (Some ''buy'')"
    by (simp add: updateOrderItemSchema_def)
  note run = updateOrderItem_unfold [OF assms(1,2) schema, of now]
  have range: "0 \<le> i \<and> i < int (length (items doc))"
    using assms(3) by (simp add: run split: if_splits)
  then have "moveItem (Num i) (Some ''buy'') (items doc) (wishlistItems doc)
               = Some (items doc, wishlistItems doc)"
    by (simp add: moveItem_buy_in_range)
  with range assms(3) have "d' = d\<lparr>orders := doc_update orderId
       (\<lambda>doc'. doc'\<lparr>items := items doc, wishlistItems := wishlistItems doc, updatedAt := now\<rparr>)
       (orders d)\<rparr>"
    by (simp add: run setQuantity_def)
  then show ?thesis
    using assms(1) by (simp add: map_of_doc_update)
qed

text \<open>
  C1. The claim: for an index in range of \<^verbatim>\<open>wishlistItems\<close>, \<^verbatim>\<open>updateOrderItem\<close> with
  \<^verbatim>\<open>listType\<close> \<^verbatim>\<open>buy\<close> removes the item at that index from the wish list and appends it
  to \<^verbatim>\<open>items\<close>. The handler does not: on the order with items Mate and Termo and the
  wish Yerba, the request for index 0 succeeds and both lists are what they were.
\<close>

theorem updateOrderItem_buy_moves_nothing:
  "parseInt ''0'' = Num 0 \<and> wishlistItems cart = [yerba] \<and> items cart = [mate, termo] \<and>
   updateOrderItem shop 6 ''o1'' ''0'' None (Some ''buy'') =
     Inr (shop\<lparr>orders := [(''o1'', cart\<lparr>updatedAt := 6\<rparr>), (''o2'', wishes)]\<rparr>) \<and>
   wishlistItems (cart\<lparr>updatedAt := 6\<rparr>) = [yerba] \<and>
   items (cart\<lparr>updatedAt := 6\<rparr>) = [mate, termo]"
  by (simp add: shop_def cart_def updateOrderItem_simps)

text \<open>The bounds check of the handler, for a valid body and an integer index: Invalid
  Index is the answer exactly when the index is out of range of \<^verbatim>\<open>items\<close>, whatever
  \<^verbatim>\<open>listType\<close> is.\<close>

lemma updateOrderItem_invalid_index_iff:
  assumes "map_of (orders d) orderId = Some doc" and "parseInt itemIndex = Num i"
    and "updateOrderItemSchema q lt"
  shows "updateOrderItem d now orderId itemIndex q lt = Inl InvalidItemIndex
           \<longleftrightarrow> i < 0 \<or> int (length (items doc)) \<le> i"
  by (simp add: updateOrderItem_unfold [OF assms] split: option.split prod.split)

text \<open>
  C2. The claim: \<^verbatim>\<open>updateOrderItem\<close> fails with Invalid Index exactly when the index is
  out of range of the list that holds the item, which is \<^verbatim>\<open>items\<close> for a quantity update
  or a move to \<^verbatim>\<open>wishlist\<close> and \<^verbatim>\<open>wishlistItems\<close> for a move to \<^verbatim>\<open>buy\<close>. The handler
  checks the index against \<^verbatim>\<open>items\<close> whatever the request is: on the order whose only
  item is on the wish list, a move to \<^verbatim>\<open>buy\<close> of index 0 is answered with Invalid Index,
  and on the order with two items and one wish, a move to \<^verbatim>\<open>buy\<close> of index 1 is
  accepted.
\<close>

theorem updateOrderItem_buy_checks_items:
  "wishlistItems wishes = [yerba] \<and> items wishes = [] \<and>
   updateOrderItem shop 6 ''o2'' ''0'' None (Some ''buy'') = Inl InvalidItemIndex \<and>
   parseInt ''1'' = Num 1 \<and> length (wishlistItems cart) = 1 \<and>
   updateOrderItem shop 6 ''o1'' ''1'' None (Some ''buy'') =
     Inr (shop\<lparr>orders := [(''o1'', cart\<lparr>updatedAt := 6\<rparr>), (''o2'', wishes)]\<rparr>)"
  by (simp add: shop_def cart_def wishes_def updateOrderItem_simps)

section \<open>Order codes\<close>

text \<open>A draw \<open>r\<close> with \<open>0 \<le> r < 1\<close>, as \<^verbatim>\<open>Math.random()\<close> returns it, picks one character
  of the alphabet.\<close>

lemma chars_alphabet: "length chars = 36" "distinct chars"
  by (simp_all add: chars_def)







section \<open>Adding an item\<close>

lemma arrayUnion_single:
  "arrayUnion xs [e] = (if e \<in> set xs then xs else xs @ [e])"
  by (simp add: arrayUnion_def)

text \<open>What \<^verbatim>\<open>arrayUnion\<close> alone does with two requests: two different new elements are
  both appended, the same element twice is kept once.\<close>

lemma arrayUnion_two_new:
  assumes "e1 \<notin> set xs" and "e2 \<notin> set xs" and "e1 \<noteq> e2"
  shows "arrayUnion (arrayUnion xs [e1]) [e2] = xs @ [e1, e2]"
  using assms by (simp add: arrayUnion_single)

lemma arrayUnion_same_twice:
  "arrayUnion (arrayUnion xs [e]) [e] = arrayUnion xs [e]"
  by (simp add: arrayUnion_single)

text \<open>The item that the handler builds always holds the sentinel in \<^verbatim>\<open>addedAt\<close>, so the
  write is refused whatever the request is: no call of \<^verbatim>\<open>addItemToOrder\<close> stores
  anything.\<close>

lemma addItemToOrder_never_stores:
  "addItemToOrder d now orderId sku' q c \<noteq> Inr r"
  by (simp add: addItemToOrder_def validateArrayElement_def Let_def
      split: option.split prod.split)

text \<open>
  C3. The claim: on an order and a product that exist, two calls of \<^verbatim>\<open>addItemToOrder\<close>
  with the same SKU, quantity and color append two separate entries to \<^verbatim>\<open>items\<close>. The
  handler appends none. The item it hands to \<^verbatim>\<open>arrayUnion\<close> holds
  \<^verbatim>\<open>FieldValue.serverTimestamp()\<close> in \<^verbatim>\<open>addedAt\<close>, the SDK refuses a sentinel inside an
  array element, \<^verbatim>\<open>update\<close> throws and the answer is 500: on the shop, with the product
  SKU001 and the order o1, the valid request fails and the order stays as it was.
\<close>

theorem addItemToOrder_refused:
  "findProductBySku shop ''SKU001'' =
     Some (''p1'', \<lparr>product_sku = ''SKU001'', product_name = ''Mate'', product_price = 100\<rparr>) \<and>
   map_of (orders shop) ''o1'' = Some cart \<and>
   addToOrderSchema ''SKU001'' 2 None \<and>
   addItemToOrder shop 10 ''o1'' ''SKU001'' 2 None = Inl InternalError"
  by (simp add: shop_def findProductBySku_def addToOrderSchema_def addItemToOrder_def
      validateArrayElement_def)

end
